theory Spec2Isabelle
  imports Complex_Main "HOL-Library.Sublist"
begin

section \<open>Python values used by the glass model\<close>

text \<open>
  Strings are lists of ASCII characters. A Python number is an \<open>int\<close> or a
  \<open>float\<close>. The only floats the library meets are decimal literals read from a gstr
  (\<open>0.76\<close>, \<open>13.2\<close>) or given by the caller, so a float is modelled by the finite decimal
  \<open>m / 10 ^ e\<close> it denotes: \<open>PyFloat m e\<close>. On literals of at most 15 significant digits
  whose value lies in \<open>[1e-4, 1e16)\<close> Python's \<open>float\<close> and \<open>str\<close> agree with this model;
  outside that range \<open>str\<close> switches to exponent notation and \<open>float\<close> rounds, which the
  model does not follow.
\<close>

datatype pynum = PyInt int | PyFloat int nat

datatype py_error =
  BuildupException | IndexError | ValueError | TypeError | ZeroDivisionError | AttributeError

fun num_value :: "pynum \<Rightarrow> rat" where
  "num_value (PyInt n) = of_int n"
| "num_value (PyFloat m e) = of_int m / 10 ^ e"

text \<open>Truthiness of an attribute that holds \<open>None\<close> or a number (\<open>if self.width:\<close>).\<close>

fun truthy_num :: "pynum option \<Rightarrow> bool" where
  "truthy_num None = False"
| "truthy_num (Some x) = (num_value x \<noteq> 0)"

subsection \<open>Characters and decimal digits\<close>

definition is_digit :: "char \<Rightarrow> bool" where
  "is_digit c = (48 \<le> (of_char c :: nat) \<and> (of_char c :: nat) \<le> 57)"

text \<open>\<open>\w\<close> of the regular expressions, on ASCII: letters, digits and the underscore.\<close>

definition is_word_char :: "char \<Rightarrow> bool" where
  "is_word_char c =
     (let n = (of_char c :: nat)
      in (48 \<le> n \<and> n \<le> 57) \<or> (65 \<le> n \<and> n \<le> 90) \<or> (97 \<le> n \<and> n \<le> 122) \<or> n = 95)"

text \<open>Whitespace removed by \<open>str.strip()\<close>.\<close>

definition is_space :: "char \<Rightarrow> bool" where
  "is_space c = (let n = (of_char c :: nat) in n = 32 \<or> (9 \<le> n \<and> n \<le> 13) \<or> (28 \<le> n \<and> n \<le> 31))"

definition strip :: "string \<Rightarrow> string" where
  "strip s = rev (dropWhile is_space (rev (dropWhile is_space s)))"

definition digit_char :: "nat \<Rightarrow> char" where
  "digit_char d = ''0123456789'' ! d"

definition digit_val :: "char \<Rightarrow> nat" where
  "digit_val c = of_char c - 48"

text \<open>The value of a string of decimal digits, most significant first.\<close>

definition nat_of_digits :: "string \<Rightarrow> nat" where
  "nat_of_digits s = foldl (\<lambda>acc c. 10 * acc + digit_val c) 0 s"

text \<open>\<open>str(n)\<close> for a natural number and for an integer.\<close>

fun str_nat :: "nat \<Rightarrow> string" where
  "str_nat n = (if n < 10 then [digit_char n] else str_nat (n div 10) @ [digit_char (n mod 10)])"

declare str_nat.simps [simp del]

definition str_int :: "int \<Rightarrow> string" where
  "str_int i = (if i < 0 then CHR ''-'' # str_nat (nat (- i)) else str_nat (nat i))"

text \<open>The \<open>e\<close> fractional digits of a float, with leading zeros kept.\<close>

fun frac_digits :: "nat \<Rightarrow> nat \<Rightarrow> string" where
  "frac_digits 0 k = []"
| "frac_digits (Suc e) k = frac_digits e (k div 10) @ [digit_char (k mod 10)]"

text \<open>\<open>str(x)\<close> of a number in positional notation; a whole float prints as \<open>6.0\<close>.\<close>

fun str_num :: "pynum \<Rightarrow> string" where
  "str_num (PyInt n) = str_int n"
| "str_num (PyFloat m e) =
     (if m < 0 then ''-'' else '''') @ str_nat (nat \<bar>m\<bar> div 10 ^ e) @ ''.'' @
     (if e = 0 then ''0'' else frac_digits e (nat \<bar>m\<bar> mod 10 ^ e))"

text \<open>\<open>str(x)\<close> of an attribute that may hold \<open>None\<close>.\<close>

fun py_str :: "pynum option \<Rightarrow> string" where
  "py_str None = ''None''"
| "py_str (Some x) = str_num x"

text \<open>
  The shortest decimal form of \<open>m / 10 ^ e\<close>: trailing zeros of the fraction are dropped.
\<close>

fun norm_dec :: "int \<Rightarrow> nat \<Rightarrow> int \<times> nat" where
  "norm_dec m 0 = (m, 0)"
| "norm_dec m (Suc e) = (if m mod 10 = 0 then norm_dec (m div 10) e else (m, Suc e))"

text \<open>
  \<open>x = float(s); if x == int(x): return int(x); return x\<close>, the tail shared by both
  number scanners, on the decimal \<open>m / 10 ^ e\<close>.
\<close>

definition collapse_int :: "int \<Rightarrow> nat \<Rightarrow> pynum" where
  "collapse_int m e = (case norm_dec m e of (m', e') \<Rightarrow> if e' = 0 then PyInt m' else PyFloat m' e')"

text \<open>
  \<open>float(s)\<close> on the strings the two regular expressions can capture: an optional sign,
  digits, dots, digits. More than one dot, or no digit at all, is a \<open>ValueError\<close>. The result
  is the decimal \<open>(m, e)\<close>.
\<close>

definition py_float :: "string \<Rightarrow> py_error + (int \<times> nat)" where
  "py_float s =
     (let neg = (s \<noteq> [] \<and> hd s = CHR ''-'');
          u = (if s \<noteq> [] \<and> (hd s = CHR ''-'' \<or> hd s = CHR ''+'') then tl s else s);
          a = takeWhile is_digit u;
          r = dropWhile is_digit u;
          c = (if r = [] then [] else tl r)
      in if (r \<noteq> [] \<and> hd r \<noteq> CHR ''.'') \<or> \<not> list_all is_digit c \<or> a @ c = [] then Inl ValueError
         else Inr ((if neg then - 1 else 1) * int (nat_of_digits (a @ c)), length c))"

definition float_to_num :: "string \<Rightarrow> py_error + pynum" where
  "float_to_num s = (case py_float s of Inl err \<Rightarrow> Inl err | Inr (m, e) \<Rightarrow> Inr (collapse_int m e))"

section \<open>Token scanners (gstr.py)\<close>

abbreviation IGDB_START :: char where "IGDB_START \<equiv> CHR ''#''"
abbreviation IGDB_OPEN_BRACKET :: char where "IGDB_OPEN_BRACKET \<equiv> CHR ''(''"
abbreviation IGDB_CLOSE_BRACKET :: char where "IGDB_CLOSE_BRACKET \<equiv> CHR '')''"
abbreviation IGDB_FLIP :: char where "IGDB_FLIP \<equiv> CHR ''x''"
abbreviation GAS_SEPARATOR :: char where "GAS_SEPARATOR \<equiv> CHR ''_''"
abbreviation INTERLAYER_SEPARATOR :: char where "INTERLAYER_SEPARATOR \<equiv> CHR ''&''"
abbreviation META :: char where "META \<equiv> CHR ''-''"
abbreviation WIDTH :: string where "WIDTH \<equiv> ''W''"
abbreviation HEIGHT :: string where "HEIGHT \<equiv> ''H''"
abbreviation SUPPORT :: string where "SUPPORT \<equiv> ''SUPPORT''"
abbreviation LAM :: string where "LAM \<equiv> ''LAM''"

subsection \<open>\<open>str.split\<close>\<close>

text \<open>
  \<open>s.split(sep)\<close> for a non-empty separator: the pieces between the non-overlapping
  occurrences of \<open>sep\<close>, found left to right. There is always at least one piece.
\<close>

function py_split :: "string \<Rightarrow> string \<Rightarrow> string list" where
  "py_split sep [] = [[]]"
| "py_split sep (x # xs) =
     (if sep \<noteq> [] \<and> prefix sep (x # xs) then [] # py_split sep (drop (length sep) (x # xs))
      else (let ps = py_split sep xs in (x # hd ps) # tl ps))"
  by pat_completeness auto
termination
  by (relation "measure (\<lambda>(sep, s). length s)") (auto simp: neq_Nil_conv)

subsection \<open>\<open>find_enclosed_brackets\<close>\<close>

text \<open>
  The scan keeps a stack of the indices of the open brackets (most recent first) and the
  list of pairs closed so far. The two \<open>print\<close> calls are the only trace an unmatched
  bracket leaves, so the lines printed are part of the result.
\<close>

datatype message = Unmatched_closing nat | Unmatched_opening "nat list"

fun scan_brackets ::
  "string \<Rightarrow> nat \<Rightarrow> nat list \<Rightarrow> (nat \<times> nat) list \<Rightarrow> message list
     \<Rightarrow> nat list \<times> (nat \<times> nat) list \<times> message list" where
  "scan_brackets [] i stack enclosed_pairs out = (stack, enclosed_pairs, out)"
| "scan_brackets (c # cs) i stack enclosed_pairs out =
     (if c = CHR ''('' then scan_brackets cs (Suc i) (i # stack) enclosed_pairs out
      else if c = CHR '')'' then
        (case stack of
           j # stack' \<Rightarrow> scan_brackets cs (Suc i) stack' (enclosed_pairs @ [(j, i)]) out
         | [] \<Rightarrow> scan_brackets cs (Suc i) stack enclosed_pairs (out @ [Unmatched_closing i]))
      else scan_brackets cs (Suc i) stack enclosed_pairs out)"

text \<open>The pairs returned, and the lines printed on the way.\<close>

definition find_enclosed_brackets :: "string \<Rightarrow> (nat \<times> nat) list \<times> message list" where
  "find_enclosed_brackets s =
     (case scan_brackets s 0 [] [] [] of
        (stack, enclosed_pairs, out) \<Rightarrow>
          (enclosed_pairs, if stack \<noteq> [] then out @ [Unmatched_opening (rev stack)] else out))"

subsection \<open>\<open>find_number_after_marker\<close>\<close>

text \<open>
  The group \<open>[-+]?(?:\d*\.*\d+)\<close> at the start of \<open>r\<close>. After the optional sign the
  engine takes all digits, then all dots, then needs a digit: when digits follow the dots
  the capture runs to the end of them; otherwise it backtracks to the leading digits alone,
  and fails when there are none.
\<close>

definition match_signed_number :: "string \<Rightarrow> string option" where
  "match_signed_number r =
     (let sign = (if r \<noteq> [] \<and> (hd r = CHR ''-'' \<or> hd r = CHR ''+'') then [hd r] else []);
          u = drop (length sign) r;
          a = takeWhile is_digit u;
          u1 = dropWhile is_digit u;
          b = takeWhile (\<lambda>c. c = CHR ''.'') u1;
          c = takeWhile is_digit (dropWhile (\<lambda>c. c = CHR ''.'') u1)
      in if c \<noteq> [] then Some (sign @ a @ b @ c)
         else if a \<noteq> [] then Some (sign @ a)
         else None)"

text \<open>One match of \<open>marker([-+]?(?:\d*\.*\d+))\<close> at the start of \<open>s\<close>: the group and the rest.\<close>

definition match_marker_number :: "string \<Rightarrow> string \<Rightarrow> (string \<times> string) option" where
  "match_marker_number marker s =
     (if prefix marker s then
        (case match_signed_number (drop (length marker) s) of
           None \<Rightarrow> None
         | Some g \<Rightarrow> Some (g, drop (length marker + length g) s))
      else None)"

lemma match_signed_number_nonempty: "match_signed_number r = Some g \<Longrightarrow> g \<noteq> []"
  by (auto simp: match_signed_number_def Let_def split: if_splits)

lemma match_signed_number_input: "match_signed_number r = Some g \<Longrightarrow> r \<noteq> []"
  by (auto simp: match_signed_number_def Let_def split: if_splits)

lemma match_marker_number_shorter:
  assumes "match_marker_number marker s = Some (g, rest)"
  shows "length rest < length s"
proof -
  from assms obtain g' where g': "match_signed_number (drop (length marker) s) = Some g'"
    and rest: "rest = drop (length marker + length g') s"
    by (auto simp: match_marker_number_def split: if_splits option.splits)
  from g' have "g' \<noteq> []" and "drop (length marker) s \<noteq> []"
    by (auto dest: match_signed_number_nonempty match_signed_number_input)
  then show ?thesis using rest by (cases g') auto
qed

text \<open>\<open>re.findall(pattern, string)\<close>: the groups of the non-overlapping matches, left to right.\<close>

function findall_marker_number :: "string \<Rightarrow> string \<Rightarrow> string list" where
  "findall_marker_number marker s =
     (case match_marker_number marker s of
        Some (g, rest) \<Rightarrow> g # findall_marker_number marker rest
      | None \<Rightarrow> (case s of [] \<Rightarrow> [] | _ # cs \<Rightarrow> findall_marker_number marker cs))"
  by pat_completeness auto
termination
  by (relation "measure (\<lambda>(marker, s). length s)") (auto dest: match_marker_number_shorter)

declare findall_marker_number.simps [simp del]

definition find_number_after_marker :: "string \<Rightarrow> string \<Rightarrow> bool \<Rightarrow> py_error + pynum option" where
  "find_number_after_marker marker string after_last =
     (let match = findall_marker_number marker string
      in if match \<noteq> [] then
           (case float_to_num (if after_last then last match else hd match) of
              Inl err \<Rightarrow> Inl err
            | Inr x \<Rightarrow> Inr (Some x))
         else Inr None)"

subsection \<open>\<open>find_first_number\<close>\<close>

text \<open>
  \<open>\b\d+\.\d+|\b\d+\<close> at the start of \<open>r\<close>, which begins with a digit: the digits, and
  the fraction when a dot and a digit follow them.
\<close>

definition match_number :: "string \<Rightarrow> string" where
  "match_number r =
     (let a = takeWhile is_digit r;
          r1 = dropWhile is_digit r;
          c = takeWhile is_digit (tl r1)
      in if r1 \<noteq> [] \<and> hd r1 = CHR ''.'' \<and> c \<noteq> [] then a @ ''.'' @ c else a)"

text \<open>
  \<open>re.search\<close>: the leftmost position that holds a digit and a word boundary before it,
  that is, the start of the string or a character that is not a word character.
  \<open>prev\<close> tells whether the character before the current position is a word character.
\<close>

fun search_number :: "bool \<Rightarrow> string \<Rightarrow> string option" where
  "search_number prev [] = None"
| "search_number prev (c # cs) =
     (if \<not> prev \<and> is_digit c then Some (match_number (c # cs))
      else search_number (is_word_char c) cs)"

definition find_first_number :: "string \<Rightarrow> py_error + pynum option" where
  "find_first_number input_string =
     (case search_number False input_string of
        None \<Rightarrow> Inr None
      | Some g \<Rightarrow> (case float_to_num g of Inl err \<Rightarrow> Inl err | Inr x \<Rightarrow> Inr (Some x)))"

section \<open>Layer model and buildup model (glass_model/__init__.py)\<close>

text \<open>
  The attributes every \<open>GlassBuildup\<close> adds to a layer: \<open>_width\<close>, \<open>_height\<close>,
  \<open>_support\<close>, \<open>igdbcode\<close> and \<open>igdbflip\<close>, with the class defaults
  \<open>None\<close>, \<open>None\<close>, \<open>None\<close>, \<open>None\<close> and \<open>False\<close>.
\<close>

record attrs =
  a_width :: "pynum option"
  a_height :: "pynum option"
  a_support :: "pynum option"
  igdbcode :: "string option"
  igdbflip :: bool

definition default_attrs :: attrs where
  "default_attrs =
     \<lparr>a_width = None, a_height = None, a_support = None, igdbcode = None, igdbflip = False\<rparr>"

text \<open>
  The class hierarchy as one datatype. A leaf layer carries \<open>descriptor\<close>, \<open>_t_nom\<close> and
  \<open>_t_actual\<close>; a composite carries its attributes and \<open>_layers\<close>. The descriptor of a
  composite is the constant its constructor passes on (\<open>lam\<close>, \<open>igu\<close>). The fields
  \<open>_t_nom\<close> and \<open>_t_actual\<close> of a composite are overwritten by every read of the
  properties and are read nowhere else, so the model has no field for them.
\<close>

datatype layer =
    Interlayer string "pynum option" "pynum option"
  | GasLayer string "pynum option" "pynum option"
  | MonoGlass string "pynum option" "pynum option" attrs
  | LaminatedGlass attrs "layer list"
  | InsulatedGlass attrs "layer list"

definition THICKNESS_NOT_SET :: pynum where
  "THICKNESS_NOT_SET = PyInt 0"

definition VAR :: "string list" where
  "VAR = [''MONO'', ''A'', ''HS'', ''T'', ''TS'']"

definition Interlayer_MATERIALS :: "string list" where
  "Interlayer_MATERIALS = [''PVB'', ''SG'', ''EVA'']"

definition GasLayer_MATERIALS :: "string list" where
  "GasLayer_MATERIALS = [''AIR'', ''AR'', ''XE'', ''KR'']"

fun isinstance_Interlayer :: "layer \<Rightarrow> bool" where
  "isinstance_Interlayer (Interlayer d tn ta) = True"
| "isinstance_Interlayer l = False"

fun isinstance_GlassBuildup :: "layer \<Rightarrow> bool" where
  "isinstance_GlassBuildup (Interlayer d tn ta) = False"
| "isinstance_GlassBuildup (GasLayer d tn ta) = False"
| "isinstance_GlassBuildup l = True"

fun descriptor :: "layer \<Rightarrow> string" where
  "descriptor (Interlayer d tn ta) = d"
| "descriptor (GasLayer d tn ta) = d"
| "descriptor (MonoGlass d tn ta a) = d"
| "descriptor (LaminatedGlass a ls) = ''lam''"
| "descriptor (InsulatedGlass a ls) = ''igu''"

fun layers :: "layer \<Rightarrow> layer list" where
  "layers (LaminatedGlass a ls) = ls"
| "layers (InsulatedGlass a ls) = ls"
| "layers l = []"

text \<open>The attributes of a \<open>GlassBuildup\<close>; the two separator classes have none.\<close>

fun attrs_of :: "layer \<Rightarrow> attrs option" where
  "attrs_of (MonoGlass d tn ta a) = Some a"
| "attrs_of (LaminatedGlass a ls) = Some a"
| "attrs_of (InsulatedGlass a ls) = Some a"
| "attrs_of l = None"

subsection \<open>Constructors\<close>

text \<open>\<open>_BaseLayer.__init__(descriptor, t)\<close>, which \<open>Interlayer\<close> and \<open>GasLayer\<close> inherit as it is.\<close>

definition Interlayer_init :: "string \<Rightarrow> pynum option \<Rightarrow> py_error + layer" where
  "Interlayer_init descr t = Inr (Interlayer descr t t)"

definition GasLayer_init :: "string \<Rightarrow> pynum option \<Rightarrow> py_error + layer" where
  "GasLayer_init descr t = Inr (GasLayer descr t t)"

definition MonoGlass_init :: "string \<Rightarrow> pynum option \<Rightarrow> py_error + layer" where
  "MonoGlass_init heat_treatment t_nom =
     (if heat_treatment \<notin> set VAR then Inl BuildupException
      else Inr (MonoGlass heat_treatment t_nom t_nom default_attrs))"

text \<open>\<open>itertools.zip_longest\<close>, \<open>chain.from_iterable\<close> and the filter \<open>if x\<close>.\<close>

fun zip_longest :: "'a list \<Rightarrow> 'a list \<Rightarrow> 'a option list list" where
  "zip_longest [] [] = []"
| "zip_longest (x # xs) [] = [Some x, None] # zip_longest xs []"
| "zip_longest [] (y # ys) = [None, Some y] # zip_longest [] ys"
| "zip_longest (x # xs) (y # ys) = [Some x, Some y] # zip_longest xs ys"

text \<open>
  A layer object is always true (the classes define neither \<open>__bool__\<close> nor \<open>__len__\<close>),
  so the filter removes exactly the \<open>None\<close> padding.
\<close>

definition MultiLayer_layers :: "layer list \<Rightarrow> layer list \<Rightarrow> layer list" where
  "MultiLayer_layers glass_layers separator_layers =
     List.map_filter (\<lambda>x. x) (concat (zip_longest glass_layers separator_layers))"

definition LaminatedGlass_init :: "layer list \<Rightarrow> layer list \<Rightarrow> py_error + layer" where
  "LaminatedGlass_init plies interlayers =
     (if plies \<noteq> [] \<and> int (length interlayers) \<noteq> int (length plies) - 1 then Inl BuildupException
      else Inr (LaminatedGlass default_attrs (MultiLayer_layers plies interlayers)))"

definition InsulatedGlass_init :: "layer list \<Rightarrow> layer list \<Rightarrow> py_error + layer" where
  "InsulatedGlass_init lites gases =
     (if lites \<noteq> [] \<and> int (length gases) \<noteq> int (length lites) - 1 then Inl BuildupException
      else Inr (InsulatedGlass default_attrs (MultiLayer_layers lites gases)))"

subsection \<open>Slices of the layer list\<close>

text \<open>\<open>_layers[0::2]\<close> (plies, lites) and \<open>_layers[1::2]\<close> (interlayers, gases).\<close>

fun slice_even :: "'a list \<Rightarrow> 'a list" where
  "slice_even [] = []"
| "slice_even [x] = [x]"
| "slice_even (x # y # zs) = x # slice_even zs"

fun slice_odd :: "'a list \<Rightarrow> 'a list" where
  "slice_odd [] = []"
| "slice_odd [x] = []"
| "slice_odd (x # y # zs) = y # slice_odd zs"

definition plies :: "layer \<Rightarrow> layer list" where
  "plies l = slice_even (layers l)"

definition interlayers :: "layer \<Rightarrow> layer list" where
  "interlayers l = slice_odd (layers l)"

definition lites :: "layer \<Rightarrow> layer list" where
  "lites l = slice_even (layers l)"

definition gases :: "layer \<Rightarrow> layer list" where
  "gases l = slice_odd (layers l)"

subsection \<open>Thickness\<close>

text \<open>
  The properties \<open>t_nom\<close> and \<open>t_actual\<close>. A leaf returns its field. A composite adds
  up its layers starting from the integer 0; adding \<open>None\<close> is a \<open>TypeError\<close>. The sum of
  two numbers is Python's \<open>+\<close>, which rounds on floats: it is the parameter \<open>add\<close>, so
  that nothing proved here depends on how it rounds.
\<close>

fun add_opt ::
  "(pynum \<Rightarrow> pynum \<Rightarrow> pynum) \<Rightarrow> py_error + pynum option \<Rightarrow> py_error + pynum option
     \<Rightarrow> py_error + pynum option" where
  "add_opt add (Inr (Some x)) (Inr (Some y)) = Inr (Some (add x y))"
| "add_opt add (Inl err) y = Inl err"
| "add_opt add x (Inl err) = Inl err"
| "add_opt add x y = Inl TypeError"

fun t_actual :: "(pynum \<Rightarrow> pynum \<Rightarrow> pynum) \<Rightarrow> layer \<Rightarrow> py_error + pynum option" where
  "t_actual add (Interlayer d tn ta) = Inr ta"
| "t_actual add (GasLayer d tn ta) = Inr ta"
| "t_actual add (MonoGlass d tn ta a) = Inr ta"
| "t_actual add (LaminatedGlass a ls) =
     foldl (\<lambda>acc l. add_opt add acc (t_actual add l)) (Inr (Some (PyInt 0))) ls"
| "t_actual add (InsulatedGlass a ls) =
     foldl (\<lambda>acc l. add_opt add acc (t_actual add l)) (Inr (Some (PyInt 0))) ls"

fun t_nom :: "(pynum \<Rightarrow> pynum \<Rightarrow> pynum) \<Rightarrow> layer \<Rightarrow> py_error + pynum option" where
  "t_nom add (Interlayer d tn ta) = Inr tn"
| "t_nom add (GasLayer d tn ta) = Inr tn"
| "t_nom add (MonoGlass d tn ta a) = Inr tn"
| "t_nom add (LaminatedGlass a ls) =
     foldl (\<lambda>acc l. if \<not> isinstance_Interlayer l then add_opt add acc (t_nom add l) else acc)
       (Inr (Some (PyInt 0))) ls"
| "t_nom add (InsulatedGlass a ls) =
     foldl (\<lambda>acc l. if \<not> isinstance_Interlayer l then add_opt add acc (t_nom add l) else acc)
       (Inr (Some (PyInt 0))) ls"

subsection \<open>Width, height and support\<close>

definition width :: "layer \<Rightarrow> pynum option" where
  "width l = (case attrs_of l of Some a \<Rightarrow> a_width a | None \<Rightarrow> None)"

definition height :: "layer \<Rightarrow> pynum option" where
  "height l = (case attrs_of l of Some a \<Rightarrow> a_height a | None \<Rightarrow> None)"

definition support :: "layer \<Rightarrow> pynum option" where
  "support l = (case attrs_of l of Some a \<Rightarrow> a_support a | None \<Rightarrow> None)"

text \<open>
  The setters. \<open>GlassBuildup\<close> stores the value; \<open>MultiLayerGlassBuildup\<close> stores it and
  assigns it to every layer that is a \<open>GlassBuildup\<close>, whose own setter runs in turn.
  The loops never assign to a separator layer, which is returned as it is.
\<close>

fun set_width :: "pynum option \<Rightarrow> layer \<Rightarrow> layer" where
  "set_width w (MonoGlass d tn ta a) = MonoGlass d tn ta (a\<lparr>a_width := w\<rparr>)"
| "set_width w (LaminatedGlass a ls) =
     LaminatedGlass (a\<lparr>a_width := w\<rparr>)
       (map (\<lambda>l. if isinstance_GlassBuildup l then set_width w l else l) ls)"
| "set_width w (InsulatedGlass a ls) =
     InsulatedGlass (a\<lparr>a_width := w\<rparr>)
       (map (\<lambda>l. if isinstance_GlassBuildup l then set_width w l else l) ls)"
| "set_width w l = l"

fun set_height :: "pynum option \<Rightarrow> layer \<Rightarrow> layer" where
  "set_height h (MonoGlass d tn ta a) = MonoGlass d tn ta (a\<lparr>a_height := h\<rparr>)"
| "set_height h (LaminatedGlass a ls) =
     LaminatedGlass (a\<lparr>a_height := h\<rparr>)
       (map (\<lambda>l. if isinstance_GlassBuildup l then set_height h l else l) ls)"
| "set_height h (InsulatedGlass a ls) =
     InsulatedGlass (a\<lparr>a_height := h\<rparr>)
       (map (\<lambda>l. if isinstance_GlassBuildup l then set_height h l else l) ls)"
| "set_height h l = l"

fun set_support :: "pynum option \<Rightarrow> layer \<Rightarrow> layer" where
  "set_support v (MonoGlass d tn ta a) = MonoGlass d tn ta (a\<lparr>a_support := v\<rparr>)"
| "set_support v (LaminatedGlass a ls) =
     LaminatedGlass (a\<lparr>a_support := v\<rparr>)
       (map (\<lambda>l. if isinstance_GlassBuildup l then set_support v l else l) ls)"
| "set_support v (InsulatedGlass a ls) =
     InsulatedGlass (a\<lparr>a_support := v\<rparr>)
       (map (\<lambda>l. if isinstance_GlassBuildup l then set_support v l else l) ls)"
| "set_support v l = l"

text \<open>Plain assignment to \<open>igdbflip\<close> and \<open>igdbcode\<close>.\<close>

fun map_attrs :: "(attrs \<Rightarrow> attrs) \<Rightarrow> layer \<Rightarrow> layer" where
  "map_attrs f (MonoGlass d tn ta a) = MonoGlass d tn ta (f a)"
| "map_attrs f (LaminatedGlass a ls) = LaminatedGlass (f a) ls"
| "map_attrs f (InsulatedGlass a ls) = InsulatedGlass (f a) ls"
| "map_attrs f l = l"

subsection \<open>Aspect ratio\<close>

text \<open>
  \<open>max(self._width, self._height) / min(self._width, self._height)\<close>. Comparing with
  \<open>None\<close> is a \<open>TypeError\<close>, dividing by zero a \<open>ZeroDivisionError\<close>. \<open>max(a, b)\<close> is
  \<open>b\<close> when \<open>b > a\<close> and \<open>a\<close> otherwise; \<open>min(a, b)\<close> is \<open>b\<close> when \<open>b < a\<close>. The
  result is the exact quotient, of which Python returns the nearest float.
\<close>

definition py_max :: "pynum \<Rightarrow> pynum \<Rightarrow> pynum" where
  "py_max a b = (if num_value b > num_value a then b else a)"

definition py_min :: "pynum \<Rightarrow> pynum \<Rightarrow> pynum" where
  "py_min a b = (if num_value b < num_value a then b else a)"

definition ar :: "layer \<Rightarrow> py_error + rat" where
  "ar l =
     (case attrs_of l of
        None \<Rightarrow> Inl AttributeError
      | Some a \<Rightarrow>
          (case (a_width a, a_height a) of
             (Some w, Some h) \<Rightarrow>
               if num_value (py_min w h) = 0 then Inl ZeroDivisionError
               else Inr (num_value (py_max w h) / num_value (py_min w h))
           | _ \<Rightarrow> Inl TypeError))"

subsection \<open>Metadata tail\<close>

definition parse_meta :: "layer \<Rightarrow> string \<Rightarrow> py_error + (layer \<times> string)" where
  "parse_meta self g_str =
     (if META \<in> set g_str then
        (case find_number_after_marker WIDTH g_str True of
           Inl err \<Rightarrow> Inl err
         | Inr w \<Rightarrow>
            (case find_number_after_marker HEIGHT g_str True of
               Inl err \<Rightarrow> Inl err
             | Inr h \<Rightarrow>
                (case find_number_after_marker SUPPORT g_str True of
                   Inl err \<Rightarrow> Inl err
                 | Inr v \<Rightarrow>
                     Inr (set_support v (set_height h (set_width w self)),
                          hd (py_split [META] g_str)))))
      else Inr (self, g_str))"

definition add_meta :: "layer \<Rightarrow> string \<Rightarrow> string" where
  "add_meta self g_str =
     (let s = (if truthy_num (width self) then WIDTH @ py_str (width self) else []) @
              (if truthy_num (height self) then HEIGHT @ py_str (height self) else []) @
              (if truthy_num (support self) then SUPPORT @ py_str (support self) else [])
      in if s \<noteq> [] then g_str @ [META] @ s else g_str)"

subsection \<open>Identifier wrapper\<close>

text \<open>\<open>g_str.find(c)\<close>: the index of the first \<open>c\<close>, or \<open>-1\<close>.\<close>

definition py_find :: "char \<Rightarrow> string \<Rightarrow> int" where
  "py_find c s = (if c \<in> set s then int (length (takeWhile (\<lambda>x. x \<noteq> c) s)) else - 1)"

text \<open>\<open>s[i:j]\<close> for indices that are not negative.\<close>

definition py_slice :: "nat \<Rightarrow> nat \<Rightarrow> string \<Rightarrow> string" where
  "py_slice i j s = drop i (take j s)"

definition endswith :: "string \<Rightarrow> char \<Rightarrow> bool" where
  "endswith s c = (s \<noteq> [] \<and> last s = c)"

definition startswith :: "string \<Rightarrow> char \<Rightarrow> bool" where
  "startswith s c = (s \<noteq> [] \<and> hd s = c)"

text \<open>
  \<open>find_enclosed_brackets(g_str)[-1]\<close> is an \<open>IndexError\<close> when the scan closed no pair.
  The lines the scan prints are not kept here.
\<close>

definition parse_igdbcode :: "layer \<Rightarrow> string \<Rightarrow> py_error + (layer \<times> string)" where
  "parse_igdbcode self g_str =
     (if startswith g_str IGDB_START \<and> endswith g_str IGDB_CLOSE_BRACKET then
        (case fst (find_enclosed_brackets g_str) of
           [] \<Rightarrow> Inl IndexError
         | p # ps \<Rightarrow>
            (let last_br_pair = last (p # ps);
                 i = py_find IGDB_OPEN_BRACKET g_str
             in if i = int (fst last_br_pair) then
                  (let x = py_slice 1 (fst last_br_pair) g_str
                   in Inr (map_attrs (\<lambda>a. a\<lparr>igdbflip := endswith x IGDB_FLIP,
                                               igdbcode := Some (hd (py_split [IGDB_FLIP] x))\<rparr>) self,
                           py_slice (fst last_br_pair + 1) (snd last_br_pair) g_str))
                else Inr (self, g_str)))
      else Inr (self, g_str))"

text \<open>\<open>if self.igdbcode:\<close> holds for a code that is neither \<open>None\<close> nor the empty string.\<close>

definition add_igdbcode :: "layer \<Rightarrow> string \<Rightarrow> string" where
  "add_igdbcode self g_str =
     (case attrs_of self of
        Some a \<Rightarrow>
          (case igdbcode a of
             Some code \<Rightarrow>
               if code \<noteq> [] then
                 [IGDB_START] @ code @ (if igdbflip a then [IGDB_FLIP] else []) @
                 [IGDB_OPEN_BRACKET] @ g_str @ [IGDB_CLOSE_BRACKET]
               else g_str
           | None \<Rightarrow> g_str)
      | None \<Rightarrow> g_str)"

subsection \<open>Rendering\<close>

text \<open>\<open>sep.join(pieces)\<close>.\<close>

fun join :: "string \<Rightarrow> string list \<Rightarrow> string" where
  "join sep [] = []"
| "join sep [p] = p"
| "join sep (p # q # ps) = p @ sep @ join sep (q # ps)"

text \<open>
  The loop of \<open>InsulatedGlass.to_gstr\<close> over the rendered lites: after lite \<open>i\<close> comes
  gas \<open>i\<close>, when there is one.
\<close>

fun igu_pieces :: "nat \<Rightarrow> string list \<Rightarrow> string list \<Rightarrow> string list" where
  "igu_pieces i [] gs = []"
| "igu_pieces i (l # ls) gs = (l # (if i < length gs then [gs ! i] else [])) @ igu_pieces (Suc i) ls gs"

lemma set_slice_even: "set (slice_even xs) \<subseteq> set xs"
  by (induction xs rule: slice_even.induct) auto

lemma set_slice_odd: "set (slice_odd xs) \<subseteq> set xs"
  by (induction xs rule: slice_odd.induct) auto

lemma size_slice_even: "x \<in> set (slice_even xs) \<Longrightarrow> size x < Suc (size_list size xs)"
proof -
  assume "x \<in> set (slice_even xs)"
  then have "x \<in> set xs" using set_slice_even [of xs] by blast
  then have "size x \<le> size_list size xs" by (rule size_list_estimation') simp
  then show ?thesis by simp
qed

lemma size_slice_odd: "x \<in> set (slice_odd xs) \<Longrightarrow> size x < Suc (size_list size xs)"
proof -
  assume "x \<in> set (slice_odd xs)"
  then have "x \<in> set xs" using set_slice_odd [of xs] by blast
  then have "size x \<le> size_list size xs" by (rule size_list_estimation') simp
  then show ?thesis by simp
qed

text \<open>
  \<open>to_gstr(inc_meta)\<close>. A leaf prints \<open>f'{self.t_nom}{self.descriptor}'\<close>. A composite
  renders its layers without metadata, joins them, wraps the identifier and appends its own
  metadata when \<open>inc_meta\<close> holds.
\<close>

function to_gstr :: "bool \<Rightarrow> layer \<Rightarrow> string" where
  "to_gstr inc_meta (Interlayer d tn ta) = py_str tn @ d"
| "to_gstr inc_meta (GasLayer d tn ta) = py_str tn @ d"
| "to_gstr inc_meta (MonoGlass d tn ta a) =
     (let g = add_igdbcode (MonoGlass d tn ta a) (py_str tn @ d)
      in if inc_meta then add_meta (MonoGlass d tn ta a) g else g)"
| "to_gstr inc_meta (LaminatedGlass a ls) =
     (let g = add_igdbcode (LaminatedGlass a ls) (join [INTERLAYER_SEPARATOR] (map (to_gstr False) ls))
      in if inc_meta then add_meta (LaminatedGlass a ls) g else g)"
| "to_gstr inc_meta (InsulatedGlass a ls) =
     (let g = add_igdbcode (InsulatedGlass a ls)
                (join [GAS_SEPARATOR]
                   (igu_pieces 0 (map (to_gstr False) (slice_even ls)) (map (to_gstr False) (slice_odd ls))))
      in if inc_meta then add_meta (InsulatedGlass a ls) g else g)"
  by pat_completeness auto
termination
  by (relation "measure (\<lambda>(inc_meta, l). size l)")
     (auto simp: less_Suc_eq_le size_list_estimation' dest: size_slice_even size_slice_odd)

subsection \<open>Parsing\<close>

text \<open>
  \<open>_BaseLayer.init_from_g_str\<close>: the thickness is the first number of the stripped
  token, the descriptor what follows the last occurrence of \<open>str(thickness)\<close>. \<open>cls\<close> is the
  constructor of the class the method is called on.
\<close>

definition base_init_from_g_str ::
  "(string \<Rightarrow> pynum option \<Rightarrow> py_error + layer) \<Rightarrow> string \<Rightarrow> py_error + layer" where
  "base_init_from_g_str cls g_str =
     (let g = strip g_str
      in case find_first_number g of
           Inl err \<Rightarrow> Inl err
         | Inr thickness \<Rightarrow> cls (last (py_split (py_str thickness) g)) thickness)"

definition Interlayer_init_from_g_str :: "string \<Rightarrow> py_error + layer" where
  "Interlayer_init_from_g_str g_str = base_init_from_g_str Interlayer_init g_str"

definition GasLayer_init_from_g_str :: "string \<Rightarrow> py_error + layer" where
  "GasLayer_init_from_g_str g_str = base_init_from_g_str GasLayer_init g_str"

text \<open>The three assignments that copy descriptor and thickness from \<open>_m\<close> into the new pane.\<close>

fun copy_base :: "layer \<Rightarrow> layer \<Rightarrow> layer" where
  "copy_base (MonoGlass d tn ta a') (MonoGlass d0 tn0 ta0 a) = MonoGlass d tn ta a"
| "copy_base m l = l"

definition MonoGlass_init_from_g_str :: "string \<Rightarrow> py_error + layer" where
  "MonoGlass_init_from_g_str g_str =
     (case MonoGlass_init ''MONO'' None of
        Inl err \<Rightarrow> Inl err
      | Inr mono0 \<Rightarrow>
         (case parse_meta mono0 g_str of
            Inl err \<Rightarrow> Inl err
          | Inr (mono1, g1) \<Rightarrow>
             (case parse_igdbcode mono1 g1 of
                Inl err \<Rightarrow> Inl err
              | Inr (mono2, g2) \<Rightarrow>
                 (case base_init_from_g_str MonoGlass_init g2 of
                    Inl err \<Rightarrow> Inl err
                  | Inr m \<Rightarrow> Inr (copy_base m mono2)))))"

text \<open>
  The loop over the split tokens: tokens at even positions go to \<open>glass\<close>, the others to
  \<open>sep\<close>; the first exception ends the loop.
\<close>

fun parse_tokens ::
  "(string \<Rightarrow> py_error + layer) \<Rightarrow> (string \<Rightarrow> py_error + layer) \<Rightarrow> nat \<Rightarrow> string list
     \<Rightarrow> py_error + layer list" where
  "parse_tokens glass sep i [] = Inr []"
| "parse_tokens glass sep i (g # gs) =
     (case (if i mod 2 = 0 then glass g else sep g) of
        Inl err \<Rightarrow> Inl err
      | Inr l \<Rightarrow>
         (case parse_tokens glass sep (Suc i) gs of
            Inl err \<Rightarrow> Inl err
          | Inr ls \<Rightarrow> Inr (l # ls)))"

lemma parse_tokens_cong [fundef_cong]:
  assumes "gs = gs'" and "i = i'" and "sep = sep'"
    and "\<And>g. g \<in> set gs' \<Longrightarrow> glass g = glass' g"
  shows "parse_tokens glass sep i gs = parse_tokens glass' sep' i' gs'"
  using assms(4) unfolding assms(1-3)
  by (induction gs' arbitrary: i') (auto split: sum.splits)

text \<open>\<open>_layers.append\<close> for each parsed layer.\<close>

fun append_layers :: "layer \<Rightarrow> layer list \<Rightarrow> layer" where
  "append_layers (LaminatedGlass a ls) new = LaminatedGlass a (ls @ new)"
| "append_layers (InsulatedGlass a ls) new = InsulatedGlass a (ls @ new)"
| "append_layers l new = l"

definition LaminatedGlass_init_from_g_str :: "string \<Rightarrow> py_error + layer" where
  "LaminatedGlass_init_from_g_str g_str =
     (case LaminatedGlass_init [] [] of
        Inl err \<Rightarrow> Inl err
      | Inr lam \<Rightarrow>
         (case parse_meta lam g_str of
            Inl err \<Rightarrow> Inl err
          | Inr (lam1, g1) \<Rightarrow>
             (case parse_igdbcode lam1 g1 of
                Inl err \<Rightarrow> Inl err
              | Inr (lam2, g2) \<Rightarrow>
                 (case parse_tokens MonoGlass_init_from_g_str Interlayer_init_from_g_str 0
                         (py_split [INTERLAYER_SEPARATOR] g2) of
                    Inl err \<Rightarrow> Inl err
                  | Inr ls \<Rightarrow> Inr (append_layers lam2 ls)))))"

lemma py_split_not_Nil: "py_split sep s \<noteq> []"
  by (induction sep s rule: py_split.induct) (auto simp: Let_def)

lemma py_split_char_Cons:
  "py_split [c] (x # xs) =
     (if x = c then [] # py_split [c] xs
      else (x # hd (py_split [c] xs)) # tl (py_split [c] xs))"
  by (simp add: Let_def)

lemma py_split_no_sep: "g \<in> set (py_split [c] s) \<Longrightarrow> c \<notin> set g"
proof (induction s arbitrary: g)
  case Nil
  then show ?case by simp
next
  case (Cons x xs)
  obtain p ps where ps: "py_split [c] xs = p # ps"
    using py_split_not_Nil [of "[c]" xs] by (cases "py_split [c] xs") auto
  show ?case
  proof (cases "x = c")
    case True
    with Cons show ?thesis by (auto simp: py_split_char_Cons simp del: py_split.simps)
  next
    case False
    with Cons ps show ?thesis by (auto simp: py_split_char_Cons simp del: py_split.simps)
  qed
qed

text \<open>
  \<open>GlassBuildup.make_glass\<close> and \<open>InsulatedGlass.init_from_g_str\<close> call each other: a
  lite of an insulated unit is parsed by \<open>make_glass\<close>. A lite token holds no gas
  separator, which bounds the recursion.
\<close>

function make_glass :: "string \<Rightarrow> py_error + layer"
  and InsulatedGlass_init_from_g_str :: "string \<Rightarrow> py_error + layer" where
  "make_glass g_str =
     (if GAS_SEPARATOR \<in> set g_str then InsulatedGlass_init_from_g_str g_str
      else if INTERLAYER_SEPARATOR \<in> set g_str \<or> prefix LAM g_str
           then LaminatedGlass_init_from_g_str g_str
      else MonoGlass_init_from_g_str g_str)"
| "InsulatedGlass_init_from_g_str g_str =
     (case InsulatedGlass_init [] [] of
        Inl err \<Rightarrow> Inl err
      | Inr igu \<Rightarrow>
         (case parse_meta igu g_str of
            Inl err \<Rightarrow> Inl err
          | Inr (igu1, g1) \<Rightarrow>
             (case parse_igdbcode igu1 g1 of
                Inl err \<Rightarrow> Inl err
              | Inr (igu2, g2) \<Rightarrow>
                 (case parse_tokens make_glass GasLayer_init_from_g_str 0
                         (py_split [GAS_SEPARATOR] g2) of
                    Inl err \<Rightarrow> Inl err
                  | Inr ls \<Rightarrow> Inr (append_layers igu2 ls)))))"
  by pat_completeness auto
termination
  by (relation "measure (\<lambda>x. case x of Inl s \<Rightarrow> (if GAS_SEPARATOR \<in> set s then 2 else 0) | Inr s \<Rightarrow> 1)")
     (auto dest: py_split_no_sep)

declare make_glass.simps [simp del] InsulatedGlass_init_from_g_str.simps [simp del]

section \<open>Notions used to state the properties\<close>

text \<open>
  Balanced brackets, by counting: the depth never drops below zero and is zero at the end.
\<close>

fun depth_ok :: "nat \<Rightarrow> string \<Rightarrow> bool" where
  "depth_ok d [] = (d = 0)"
| "depth_ok d (c # cs) =
     (if c = CHR ''('' then depth_ok (Suc d) cs
      else if c = CHR '')'' then (0 < d \<and> depth_ok (d - 1) cs)
      else depth_ok d cs)"

definition balanced :: "string \<Rightarrow> bool" where
  "balanced s = depth_ok 0 s"

text \<open>
  The sum \<open>0 + x1 + ... + xn\<close> as Python forms it, left to right, from the integer 0.
\<close>

definition py_sum ::
  "(pynum \<Rightarrow> pynum \<Rightarrow> pynum) \<Rightarrow> (py_error + pynum option) list \<Rightarrow> py_error + pynum option" where
  "py_sum add xs = foldl (add_opt add) (Inr (Some (PyInt 0))) xs"

text \<open>
  Addition without rounding, for the examples: two integers give an integer, anything else
  a float.
\<close>

fun exact_add :: "pynum \<Rightarrow> pynum \<Rightarrow> pynum" where
  "exact_add (PyInt m) (PyInt n) = PyInt (m + n)"
| "exact_add (PyInt m) (PyFloat n e) = (case norm_dec (m * 10 ^ e + n) e of (k, d) \<Rightarrow> PyFloat k d)"
| "exact_add (PyFloat m e) (PyInt n) = (case norm_dec (m + n * 10 ^ e) e of (k, d) \<Rightarrow> PyFloat k d)"
| "exact_add (PyFloat m e) (PyFloat n f) =
     (case norm_dec (m * 10 ^ (max e f - e) + n * 10 ^ (max e f - f)) (max e f) of
        (k, d) \<Rightarrow> PyFloat k d)"

text \<open>
  Every \<open>GlassBuildup\<close> reachable from a layer through the owned layer lists, the layer
  itself included.
\<close>

fun glass_buildups :: "layer \<Rightarrow> layer list" where
  "glass_buildups (MonoGlass d tn ta a) = [MonoGlass d tn ta a]"
| "glass_buildups (LaminatedGlass a ls) = LaminatedGlass a ls # concat (map glass_buildups ls)"
| "glass_buildups (InsulatedGlass a ls) = InsulatedGlass a ls # concat (map glass_buildups ls)"
| "glass_buildups l = []"

text \<open>
  The same change to the attributes of every \<open>GlassBuildup\<close> of a tree. Two trees that
  agree after one attribute is overwritten everywhere differ in that attribute at most.
\<close>

fun map_all_attrs :: "(attrs \<Rightarrow> attrs) \<Rightarrow> layer \<Rightarrow> layer" where
  "map_all_attrs f (MonoGlass d tn ta a) = MonoGlass d tn ta (f a)"
| "map_all_attrs f (LaminatedGlass a ls) = LaminatedGlass (f a) (map (map_all_attrs f) ls)"
| "map_all_attrs f (InsulatedGlass a ls) = InsulatedGlass (f a) (map (map_all_attrs f) ls)"
| "map_all_attrs f l = l"

subsection \<open>The buildup of examples/igu.py\<close>

definition igu_outer :: layer where
  "igu_outer = MonoGlass ''A'' (Some (PyInt 6)) (Some (PyInt 6)) default_attrs"

definition interlayer :: layer where
  "interlayer = Interlayer ''PVB'' (Some (PyFloat 76 2)) (Some (PyFloat 76 2))"

definition gas :: layer where
  "gas = GasLayer ''AIR'' (Some (PyInt 12)) (Some (PyInt 12))"

definition igu_inner :: layer where
  "igu_inner = LaminatedGlass default_attrs [igu_outer, interlayer, igu_outer]"

definition igu :: layer where
  "igu = InsulatedGlass default_attrs [igu_outer, gas, igu_inner]"

subsection \<open>Metadata extraction as the specification words it\<close>

text \<open>The metadata segment: the text after the first metadata marker.\<close>

definition metadata_segment :: "string \<Rightarrow> string" where
  "metadata_segment s = drop 1 (dropWhile (\<lambda>c. c \<noteq> META) s)"

text \<open>
  \<open>extract_metadata\<close> of the specification, to compare \<open>parse_meta\<close> with: the three
  markers are looked up in the metadata segment only, and the core is the text before the
  marker.
\<close>

definition extract_metadata_spec :: "layer \<Rightarrow> string \<Rightarrow> py_error + (layer \<times> string)" where
  "extract_metadata_spec self s =
     (if META \<in> set s then
        (case find_number_after_marker WIDTH (metadata_segment s) True of
           Inl err \<Rightarrow> Inl err
         | Inr w \<Rightarrow>
            (case find_number_after_marker HEIGHT (metadata_segment s) True of
               Inl err \<Rightarrow> Inl err
             | Inr h \<Rightarrow>
                (case find_number_after_marker SUPPORT (metadata_segment s) True of
                   Inl err \<Rightarrow> Inl err
                 | Inr v \<Rightarrow>
                     Inr (set_support v (set_height h (set_width w self)),
                          takeWhile (\<lambda>c. c \<noteq> META) s))))
      else Inr (self, s))"

subsection \<open>Valid buildups\<close>

text \<open>
  A number that \<open>str\<close> renders and the scanners read back as the same number: a
  non-negative integer, or a positive decimal fraction \<open>m / 10 ^ e\<close> in shortest form
  that is not whole. The bounds keep it where the decimal model of floats agrees with
  Python: an integer below \<open>10 ^ 15\<close>; a fraction written with at most fifteen
  significant digits, \<open>m < 10 ^ 15\<close>, which \<open>float\<close> and \<open>str\<close> give back unchanged,
  and of a value of at least \<open>1e-4\<close>, from where \<open>str\<close> writes a float positionally.
\<close>

definition canonical :: "pynum \<Rightarrow> bool" where
  "canonical x =
     (case x of
        PyInt n \<Rightarrow> 0 \<le> n \<and> n < 10 ^ 15
      | PyFloat m e \<Rightarrow> 0 < m \<and> m < 10 ^ 15 \<and> 0 < e \<and> m mod 10 \<noteq> 0 \<and> 10 ^ e \<le> m * 10 ^ 4)"


text \<open>
  A width, height or support: unset, or such a number or the negative of one, which the
  scan of the metadata tail reads with its sign, other than zero, which is not rendered.
\<close>

fun py_neg :: "pynum \<Rightarrow> pynum" where
  "py_neg (PyInt n) = PyInt (- n)"
| "py_neg (PyFloat m e) = PyFloat (- m) e"

definition meta_ok :: "pynum option \<Rightarrow> bool" where
  "meta_ok v =
     (case v of
        None \<Rightarrow> True
      | Some x \<Rightarrow> (canonical x \<or> canonical (py_neg x)) \<and> num_value x \<noteq> 0)"















subsection \<open>Notions of the round-trip proof\<close>























section \<open>Properties\<close>

subsection \<open>Bracket scanning\<close>

lemma scan_brackets_out_mono:
  "scan_brackets s i st ps out = (st', ps', out') \<Longrightarrow> length out \<le> length out'"
proof (induction s arbitrary: i st ps out)
  case Nil
  then show ?case by simp
next
  case (Cons c cs)
  then show ?case
    by (fastforce split: if_splits list.splits)
qed

lemma scan_brackets_quiet:
  "scan_brackets s i st ps out = (st', ps', out') \<Longrightarrow>
     (out' = out \<and> st' = []) = depth_ok (length st) s"
proof (induction s arbitrary: i st ps out)
  case Nil
  then show ?case by auto
next
  case (Cons c cs)
  show ?case
  proof (cases "c = CHR ''(''")
    case True
    with Cons show ?thesis by simp
  next
    case notopen: False
    show ?thesis
    proof (cases "c = CHR '')''")
      case False
      with notopen Cons show ?thesis by simp
    next
      case True
      show ?thesis
      proof (cases st)
        case Nil
        with True Cons.prems
        have "scan_brackets cs (Suc i) [] ps (out @ [Unmatched_closing i]) = (st', ps', out')"
          by simp
        from scan_brackets_out_mono [OF this] have "out' \<noteq> out" by auto
        with Nil True show ?thesis by simp
      next
        case (Cons j st'')
        with True Cons.prems Cons.IH show ?thesis by simp
      qed
    qed
  qed
qed

text \<open>
  C2, as the code has it. \<open>find_enclosed_brackets\<close> has no failing path: for every
  string it returns the list of the pairs it closed. An unmatched closing bracket and a
  stack left non-empty at the end only print a line. So the scan prints nothing exactly
  when the brackets of the string are balanced, and an unbalanced string is reported on
  the output while the pair list is still returned.
\<close>

theorem find_enclosed_brackets_prints_iff_unbalanced:
  "snd (find_enclosed_brackets s) = [] \<longleftrightarrow> balanced s"
proof -
  obtain st ps out where sc: "scan_brackets s 0 [] [] [] = (st, ps, out)"
    by (cases "scan_brackets s 0 [] [] []") auto
  from scan_brackets_quiet [OF sc] have "(out = [] \<and> st = []) = balanced s"
    by (simp add: balanced_def)
  with sc show ?thesis by (auto simp: find_enclosed_brackets_def)
qed

text \<open>
  C2 as stated fails: on the unbalanced string \<open>)(\<close> the scan returns a pair list (the
  empty one) and two printed lines; nothing is raised.
\<close>

theorem find_enclosed_brackets_unbalanced_returns:
  "\<not> balanced '')('' \<and>
   find_enclosed_brackets '')('' = ([], [Unmatched_closing 0, Unmatched_opening [1]])"
  by (simp add: balanced_def find_enclosed_brackets_def)

subsection \<open>Constructors\<close>

text \<open>
  C3 at the failing inputs. \<open>MonoGlass.__init__\<close> checks the heat treatment against
  \<open>HeatTreatment.VAR\<close>; \<open>Interlayer\<close> and \<open>GasLayer\<close> declare \<open>MATERIALS\<close> and
  inherit a constructor that never looks at it, so a material outside the list is accepted,
  by the constructor and by the parser alike.
\<close>

theorem separator_material_not_checked:
  "''XYZ'' \<notin> set Interlayer_MATERIALS \<and>
   Interlayer_init ''XYZ'' (Some (PyFloat 76 2)) =
     Inr (Interlayer ''XYZ'' (Some (PyFloat 76 2)) (Some (PyFloat 76 2))) \<and>
   ''XYZ'' \<notin> set GasLayer_MATERIALS \<and>
   GasLayer_init ''XYZ'' (Some (PyInt 12)) = Inr (GasLayer ''XYZ'' (Some (PyInt 12)) (Some (PyInt 12))) \<and>
   Interlayer_init_from_g_str ''0.76XYZ'' =
     Inr (Interlayer ''XYZ'' (Some (PyFloat 76 2)) (Some (PyFloat 76 2)))"
  by code_simp

lemma MonoGlass_heat_treatment_checked:
  "heat_treatment \<notin> set VAR \<Longrightarrow> MonoGlass_init heat_treatment t = Inl BuildupException"
  by (simp add: MonoGlass_init_def)

lemma MultiLayer_layers_slices:
  "length ps = length ils \<or> length ps = Suc (length ils) \<Longrightarrow>
     slice_even (MultiLayer_layers ps ils) = ps \<and> slice_odd (MultiLayer_layers ps ils) = ils"
  by (induction ps ils rule: zip_longest.induct)
     (auto simp: MultiLayer_layers_def List.map_filter_simps)

text \<open>
  C4. With at least one ply, \<open>LaminatedGlass\<close> raises \<open>BuildupException\<close> (the error
  the library has for an inconsistent layer count) when the number of interlayers is not
  the number of plies minus one, and so does \<open>InsulatedGlass\<close> for lites and gas gaps.
  With matching counts the object is built, and its plies and interlayers (lites and
  gases) are the lists given.
\<close>

theorem layer_count_checked:
  assumes "ps \<noteq> []"
  shows "(int (length ils) \<noteq> int (length ps) - 1 \<longrightarrow>
            LaminatedGlass_init ps ils = Inl BuildupException \<and>
            InsulatedGlass_init ps ils = Inl BuildupException) \<and>
         (int (length ils) = int (length ps) - 1 \<longrightarrow>
            (\<exists>l. LaminatedGlass_init ps ils = Inr l \<and> plies l = ps \<and> interlayers l = ils) \<and>
            (\<exists>l. InsulatedGlass_init ps ils = Inr l \<and> lites l = ps \<and> gases l = ils))"
proof (intro conjI impI)
  assume "int (length ils) \<noteq> int (length ps) - 1"
  with assms show "LaminatedGlass_init ps ils = Inl BuildupException"
    and "InsulatedGlass_init ps ils = Inl BuildupException"
    by (simp_all add: LaminatedGlass_init_def InsulatedGlass_init_def)
next
  assume eq: "int (length ils) = int (length ps) - 1"
  with assms have "length ps = Suc (length ils)" by (cases ps) auto
  then have sl: "slice_even (MultiLayer_layers ps ils) = ps" "slice_odd (MultiLayer_layers ps ils) = ils"
    using MultiLayer_layers_slices [of ps ils] by simp_all
  from eq sl show "\<exists>l. LaminatedGlass_init ps ils = Inr l \<and> plies l = ps \<and> interlayers l = ils"
    by (simp add: LaminatedGlass_init_def plies_def interlayers_def)
  from eq sl show "\<exists>l. InsulatedGlass_init ps ils = Inr l \<and> lites l = ps \<and> gases l = ils"
    by (simp add: InsulatedGlass_init_def lites_def gases_def)
qed

theorem layer_count_checked_witness:
  "LaminatedGlass_init [igu_outer, igu_outer] [] = Inl BuildupException \<and>
   InsulatedGlass_init [igu_outer, igu_outer] [] = Inl BuildupException \<and>
   (\<exists>l. LaminatedGlass_init [igu_outer, igu_outer] [interlayer] = Inr l \<and>
        plies l = [igu_outer, igu_outer] \<and> interlayers l = [interlayer]) \<and>
   (\<exists>l. InsulatedGlass_init [igu_outer, igu_inner] [gas] = Inr l \<and>
        lites l = [igu_outer, igu_inner] \<and> gases l = [gas])"
  using layer_count_checked [of "[igu_outer, igu_outer]" "[]"]
    layer_count_checked [of "[igu_outer, igu_outer]" "[interlayer]"]
    layer_count_checked [of "[igu_outer, igu_inner]" "[gas]"]
  by simp

subsection \<open>Nominal thickness\<close>

lemma foldl_skip:
  "foldl (\<lambda>acc l. if P l then f acc (g l) else acc) z ls = foldl f z (map g (filter P ls))"
  by (induction ls arbitrary: z) auto

lemma filter_alternating:
  "list_all (\<lambda>l. \<not> Q l) (slice_even ls) \<Longrightarrow> list_all Q (slice_odd ls) \<Longrightarrow>
     filter (\<lambda>l. \<not> Q l) ls = slice_even ls"
  by (induction ls rule: slice_even.induct) auto

text \<open>
  C5. For a laminated buildup whose plies are glass and whose interlayers are
  \<open>Interlayer\<close> objects, \<open>t_nom\<close> is the sum of the \<open>t_nom\<close> of the plies: no interlayer
  contributes. For an insulated buildup \<open>t_nom\<close> is the sum of the \<open>t_nom\<close> of all its
  layers, lites and gas gaps alike, in storage order; the \<open>t_nom\<close> of a laminated lite is
  the one of the first part. This holds for every addition \<open>add\<close>.
\<close>

theorem t_nom_excludes_interlayers:
  "(list_all (\<lambda>l. \<not> isinstance_Interlayer l) (plies (LaminatedGlass a ls)) \<and>
    list_all isinstance_Interlayer (interlayers (LaminatedGlass a ls)) \<longrightarrow>
      t_nom add (LaminatedGlass a ls) = py_sum add (map (t_nom add) (plies (LaminatedGlass a ls)))) \<and>
   (list_all (\<lambda>l. \<not> isinstance_Interlayer l) ls \<longrightarrow>
      t_nom add (InsulatedGlass a ls) = py_sum add (map (t_nom add) ls))"
proof (intro conjI impI)
  assume "list_all (\<lambda>l. \<not> isinstance_Interlayer l) (plies (LaminatedGlass a ls)) \<and>
    list_all isinstance_Interlayer (interlayers (LaminatedGlass a ls))"
  then have "filter (\<lambda>l. \<not> isinstance_Interlayer l) ls = slice_even ls"
    by (simp add: plies_def interlayers_def filter_alternating)
  then show "t_nom add (LaminatedGlass a ls) = py_sum add (map (t_nom add) (plies (LaminatedGlass a ls)))"
    by (simp add: py_sum_def plies_def foldl_skip [where f = "add_opt add" and g = "t_nom add"])
next
  assume "list_all (\<lambda>l. \<not> isinstance_Interlayer l) ls"
  then have "filter (\<lambda>l. \<not> isinstance_Interlayer l) ls = ls"
    by (simp add: list_all_iff)
  then show "t_nom add (InsulatedGlass a ls) = py_sum add (map (t_nom add) ls)"
    by (simp add: py_sum_def foldl_skip [where f = "add_opt add" and g = "t_nom add"])
qed

theorem t_nom_excludes_interlayers_witness:
  "t_nom exact_add igu_inner = Inr (Some (PyInt 12)) \<and>
   t_nom exact_add igu_inner = py_sum exact_add (map (t_nom exact_add) [igu_outer, igu_outer]) \<and>
   t_nom exact_add igu = Inr (Some (PyInt 30)) \<and>
   t_nom exact_add igu = py_sum exact_add (map (t_nom exact_add) [igu_outer, gas, igu_inner])"
  using t_nom_excludes_interlayers [of default_attrs "[igu_outer, interlayer, igu_outer]" exact_add]
    t_nom_excludes_interlayers [of default_attrs "[igu_outer, gas, igu_inner]" exact_add]
  by (simp add: igu_def igu_inner_def igu_outer_def interlayer_def gas_def plies_def interlayers_def
      py_sum_def)

subsection \<open>Write-through of width, height and support\<close>

lemma glass_buildups_separator: "\<not> isinstance_GlassBuildup x \<Longrightarrow> glass_buildups x = []"
  by (cases x) auto

lemma glass_buildups_cascade:
  "glass_buildups (if isinstance_GlassBuildup x then f x else x) =
     (if isinstance_GlassBuildup x then glass_buildups (f x) else [])"
  by (simp add: glass_buildups_separator)

lemma set_width_all: "g \<in> set (glass_buildups (set_width w b)) \<Longrightarrow> width g = w"
  by (induction w b arbitrary: g rule: set_width.induct)
     (auto simp: glass_buildups_cascade width_def split: if_splits)

lemma set_height_all: "g \<in> set (glass_buildups (set_height w b)) \<Longrightarrow> height g = w"
  by (induction w b arbitrary: g rule: set_height.induct)
     (auto simp: glass_buildups_cascade height_def split: if_splits)

lemma set_support_all: "g \<in> set (glass_buildups (set_support w b)) \<Longrightarrow> support g = w"
  by (induction w b arbitrary: g rule: set_support.induct)
     (auto simp: glass_buildups_cascade support_def split: if_splits)

lemma set_width_frame:
  "map_all_attrs (\<lambda>a. a\<lparr>a_width := None\<rparr>) (set_width w b) =
   map_all_attrs (\<lambda>a. a\<lparr>a_width := None\<rparr>) b"
  by (induction w b rule: set_width.induct) auto

lemma set_height_frame:
  "map_all_attrs (\<lambda>a. a\<lparr>a_height := None\<rparr>) (set_height w b) =
   map_all_attrs (\<lambda>a. a\<lparr>a_height := None\<rparr>) b"
  by (induction w b rule: set_height.induct) auto

lemma set_support_frame:
  "map_all_attrs (\<lambda>a. a\<lparr>a_support := None\<rparr>) (set_support w b) =
   map_all_attrs (\<lambda>a. a\<lparr>a_support := None\<rparr>) b"
  by (induction w b rule: set_support.induct) auto

text \<open>
  C7. After a setter has run on a buildup, every \<open>GlassBuildup\<close> below it, at any depth
  and the buildup itself included, holds the value set. Nothing else has changed: once the
  attribute set is blanked everywhere, the buildup before and the buildup after are equal,
  so the separator layers, the thicknesses, the descriptors, the identifier code and flip
  and the two other metadata attributes are as they were.
\<close>

theorem setters_write_through:
  "(\<forall>g \<in> set (glass_buildups (set_width v b)). width g = v) \<and>
   (\<forall>g \<in> set (glass_buildups (set_height v b)). height g = v) \<and>
   (\<forall>g \<in> set (glass_buildups (set_support v b)). support g = v) \<and>
   map_all_attrs (\<lambda>a. a\<lparr>a_width := None\<rparr>) (set_width v b) =
     map_all_attrs (\<lambda>a. a\<lparr>a_width := None\<rparr>) b \<and>
   map_all_attrs (\<lambda>a. a\<lparr>a_height := None\<rparr>) (set_height v b) =
     map_all_attrs (\<lambda>a. a\<lparr>a_height := None\<rparr>) b \<and>
   map_all_attrs (\<lambda>a. a\<lparr>a_support := None\<rparr>) (set_support v b) =
     map_all_attrs (\<lambda>a. a\<lparr>a_support := None\<rparr>) b"
  using set_width_all set_height_all set_support_all
  by (simp add: set_width_frame set_height_frame set_support_frame)

theorem setters_write_through_witness:
  "map width (glass_buildups (set_width (Some (PyInt 3000)) igu)) =
     replicate 5 (Some (PyInt 3000)) \<and>
   layers (set_width (Some (PyInt 3000)) igu) ! 1 = gas \<and>
   map height (glass_buildups (set_height (Some (PyInt 4000)) igu)) =
     replicate 5 (Some (PyInt 4000)) \<and>
   map support (glass_buildups (set_support (Some (PyInt 4)) igu)) = replicate 5 (Some (PyInt 4)) \<and>
   map_all_attrs (\<lambda>a. a\<lparr>a_width := None\<rparr>) (set_width (Some (PyInt 3000)) igu) = igu"
  using setters_write_through [of "Some (PyInt 3000)" igu]
  by (simp add: igu_def igu_inner_def igu_outer_def interlayer_def gas_def default_attrs_def
      width_def height_def support_def numeral_eq_Suc)

subsection \<open>Aspect ratio\<close>

text \<open>
  C8. With width and height both set to positive numbers, \<open>ar\<close> is the larger over the
  smaller, swapping the two leaves it unchanged, and it is at least 1. With either of them
  unset, \<open>ar\<close> raises \<open>TypeError\<close>. The quotient is the exact one.
\<close>

theorem ar_ratio:
  assumes "attrs_of b = Some a"
  shows "(a_width a = None \<or> a_height a = None \<longrightarrow> ar b = Inl TypeError) \<and>
         (\<forall>w h. a_width a = Some w \<and> a_height a = Some h \<and> 0 < num_value w \<and> 0 < num_value h \<longrightarrow>
            ar b = Inr (max (num_value w) (num_value h) / min (num_value w) (num_value h)) \<and>
            ar (map_attrs (\<lambda>a. a\<lparr>a_width := Some h, a_height := Some w\<rparr>) b) = ar b \<and>
            1 \<le> max (num_value w) (num_value h) / min (num_value w) (num_value h))"
proof (intro conjI impI allI)
  assume "a_width a = None \<or> a_height a = None"
  with assms show "ar b = Inl TypeError"
    by (auto simp: ar_def split: option.splits)
next
  fix w h
  assume wh: "a_width a = Some w \<and> a_height a = Some h \<and> 0 < num_value w \<and> 0 < num_value h"
  have mx: "num_value (py_max w h) = max (num_value w) (num_value h)"
    and mn: "num_value (py_min w h) = min (num_value w) (num_value h)"
    and mx': "num_value (py_max h w) = max (num_value w) (num_value h)"
    and mn': "num_value (py_min h w) = min (num_value w) (num_value h)"
    by (auto simp: py_max_def py_min_def max_def min_def)
  from wh have pos: "0 < min (num_value w) (num_value h)" by simp
  from wh have nz: "min (num_value w) (num_value h) \<noteq> 0" by (auto simp: min_def)
  from assms wh nz
  show 1: "ar b = Inr (max (num_value w) (num_value h) / min (num_value w) (num_value h))"
    by (simp add: ar_def mx mn)
  from assms have "attrs_of (map_attrs (\<lambda>a. a\<lparr>a_width := Some h, a_height := Some w\<rparr>) b)
      = Some (a\<lparr>a_width := Some h, a_height := Some w\<rparr>)"
    by (cases b) auto
  with nz show "ar (map_attrs (\<lambda>a. a\<lparr>a_width := Some h, a_height := Some w\<rparr>) b) = ar b"
    unfolding 1 by (simp add: ar_def mx' mn')
  have "min (num_value w) (num_value h) \<le> max (num_value w) (num_value h)" by simp
  with pos show "1 \<le> max (num_value w) (num_value h) / min (num_value w) (num_value h)"
    by (simp add: le_divide_eq_1_pos)
qed

theorem ar_ratio_witness:
  "ar igu_outer = Inl TypeError \<and>
   ar (set_height (Some (PyInt 4000)) (set_width (Some (PyInt 3000)) igu_outer)) = Inr (4 / 3) \<and>
   ar (set_height (Some (PyInt 3000)) (set_width (Some (PyInt 4000)) igu_outer)) = Inr (4 / 3)"
  using ar_ratio [of igu_outer default_attrs]
    ar_ratio [of "set_height (Some (PyInt 4000)) (set_width (Some (PyInt 3000)) igu_outer)"
      "default_attrs\<lparr>a_width := Some (PyInt 3000), a_height := Some (PyInt 4000)\<rparr>"]
  by (simp add: igu_outer_def default_attrs_def)

subsection \<open>Thickness read from a token\<close>

lemma search_number_digit: "search_number prev s = Some g \<Longrightarrow> g \<noteq> [] \<and> is_digit (hd g)"
proof (induction s arbitrary: prev)
  case Nil
  then show ?case by simp
next
  case (Cons c cs)
  show ?case
  proof (cases "\<not> prev \<and> is_digit c")
    case True
    with Cons.prems have "g = match_number (c # cs)" by simp
    with True show ?thesis by (simp add: match_number_def Let_def)
  next
    case False
    with Cons show ?thesis by auto
  qed
qed

lemma norm_dec_nonneg: "0 \<le> m \<Longrightarrow> norm_dec m e = (m', e') \<Longrightarrow> 0 \<le> m'"
  by (induction m e rule: norm_dec.induct) (auto split: if_splits simp: pos_imp_zdiv_nonneg_iff)

lemma collapse_int_nonneg: "0 \<le> m \<Longrightarrow> 0 \<le> num_value (collapse_int m e)"
  by (auto simp: collapse_int_def split: prod.splits dest: norm_dec_nonneg)

lemma float_to_num_unsigned:
  assumes "float_to_num g = Inr x" and "g \<noteq> []" and "is_digit (hd g)"
  shows "0 \<le> num_value x"
proof -
  from assms(3) have "hd g \<noteq> CHR ''-''" by (auto simp: is_digit_def)
  with assms(1) obtain m e where "x = collapse_int m e" and "0 \<le> m"
    by (auto simp: float_to_num_def py_float_def Let_def split: sum.splits if_splits)
  then show ?thesis by (simp add: collapse_int_nonneg)
qed

lemma find_first_number_nonneg: "find_first_number s = Inr (Some x) \<Longrightarrow> 0 \<le> num_value x"
  by (auto simp: find_first_number_def split: option.splits sum.splits
      dest!: search_number_digit intro: float_to_num_unsigned)

lemma parse_meta_MonoGlass:
  "parse_meta (MonoGlass d tn ta a) s = Inr (l, g) \<Longrightarrow> \<exists>a'. l = MonoGlass d tn ta a'"
  by (auto simp: parse_meta_def split: if_splits sum.splits)

lemma parse_igdbcode_MonoGlass:
  "parse_igdbcode (MonoGlass d tn ta a) s = Inr (l, g) \<Longrightarrow> \<exists>a'. l = MonoGlass d tn ta a'"
  by (auto simp: parse_igdbcode_def Let_def split: if_splits list.splits simp del: py_split.simps)

lemma MonoGlass_init_from_g_str_shape:
  assumes "MonoGlass_init_from_g_str s = Inr l"
  shows "\<exists>d t a g. l = MonoGlass d t t a \<and> find_first_number g = Inr t"
proof -
  from assms obtain mono1 g1 mono2 g2 m
    where 1: "parse_meta (MonoGlass ''MONO'' None None default_attrs) s = Inr (mono1, g1)"
      and 2: "parse_igdbcode mono1 g1 = Inr (mono2, g2)"
      and 3: "base_init_from_g_str MonoGlass_init g2 = Inr m"
      and l: "l = copy_base m mono2"
    by (auto simp: MonoGlass_init_from_g_str_def MonoGlass_init_def VAR_def split: sum.splits)
  from 1 obtain a1 where "mono1 = MonoGlass ''MONO'' None None a1"
    by (auto dest: parse_meta_MonoGlass)
  with 2 obtain a2 where mono2: "mono2 = MonoGlass ''MONO'' None None a2"
    by (auto dest: parse_igdbcode_MonoGlass)
  from 3 obtain d t where "m = MonoGlass d t t default_attrs"
    and "find_first_number (strip g2) = Inr t"
    by (auto simp: base_init_from_g_str_def MonoGlass_init_def Let_def
        split: sum.splits if_splits simp del: py_split.simps)
  with l mono2 show ?thesis by auto
qed

text \<open>
  C9, as the code has it. The value that stands for an unset thickness is the number 0
  itself. No constructor looks at the thickness it is given: whatever the value, the layer
  is built (a pane when its heat treatment is listed). What holds is a property of the
  parser: a leaf layer read from a token has equal nominal and actual thickness, and this
  thickness is \<open>None\<close> when the token holds no number and a number that is not negative
  otherwise.
\<close>

theorem thickness_not_set_is_zero:
  "THICKNESS_NOT_SET = PyInt 0 \<and>
   Interlayer_init d t = Inr (Interlayer d t t) \<and>
   GasLayer_init d t = Inr (GasLayer d t t) \<and>
   (d \<in> set VAR \<longrightarrow> MonoGlass_init d t = Inr (MonoGlass d t t default_attrs)) \<and>
   (Interlayer_init_from_g_str s = Inr l \<or> GasLayer_init_from_g_str s = Inr l \<or>
    MonoGlass_init_from_g_str s = Inr l \<longrightarrow>
      t_nom add l = t_actual add l \<and>
      (t_nom add l = Inr None \<or> (\<exists>x. t_nom add l = Inr (Some x) \<and> 0 \<le> num_value x)))"
proof (intro conjI impI)
  show "THICKNESS_NOT_SET = PyInt 0" by (simp add: THICKNESS_NOT_SET_def)
  show "Interlayer_init d t = Inr (Interlayer d t t)" by (simp add: Interlayer_init_def)
  show "GasLayer_init d t = Inr (GasLayer d t t)" by (simp add: GasLayer_init_def)
  show "MonoGlass_init d t = Inr (MonoGlass d t t default_attrs)" if "d \<in> set VAR"
    using that by (simp add: MonoGlass_init_def)
next
  assume "Interlayer_init_from_g_str s = Inr l \<or> GasLayer_init_from_g_str s = Inr l \<or>
    MonoGlass_init_from_g_str s = Inr l"
  then have "\<exists>t g. t_nom add l = Inr t \<and> t_actual add l = Inr t \<and> find_first_number g = Inr t"
  proof (elim disjE)
    assume "Interlayer_init_from_g_str s = Inr l"
    then show ?thesis
      by (auto simp: Interlayer_init_from_g_str_def base_init_from_g_str_def Interlayer_init_def
          Let_def split: sum.splits simp del: py_split.simps)
  next
    assume "GasLayer_init_from_g_str s = Inr l"
    then show ?thesis
      by (auto simp: GasLayer_init_from_g_str_def base_init_from_g_str_def GasLayer_init_def
          Let_def split: sum.splits simp del: py_split.simps)
  next
    assume "MonoGlass_init_from_g_str s = Inr l"
    then show ?thesis by (auto dest!: MonoGlass_init_from_g_str_shape)
  qed
  then obtain t g where t: "t_nom add l = Inr t" "t_actual add l = Inr t"
    and g: "find_first_number g = Inr t" by blast
  from t show "t_nom add l = t_actual add l" by simp
  from t g show "t_nom add l = Inr None \<or> (\<exists>x. t_nom add l = Inr (Some x) \<and> 0 \<le> num_value x)"
    by (cases t) (auto dest: find_first_number_nonneg)
qed

theorem thickness_not_set_is_zero_witness:
  "''A'' \<in> set VAR \<and>
   MonoGlass_init ''A'' (Some (PyInt 6)) =
     Inr (MonoGlass ''A'' (Some (PyInt 6)) (Some (PyInt 6)) default_attrs) \<and>
   Interlayer_init_from_g_str ''0.76PVB'' = Inr interlayer \<and>
   t_nom exact_add interlayer = t_actual exact_add interlayer \<and>
   (t_nom exact_add interlayer = Inr None \<or>
    (\<exists>x. t_nom exact_add interlayer = Inr (Some x) \<and> 0 \<le> num_value x))"
proof -
  have v: "''A'' \<in> set VAR" by (simp add: VAR_def)
  have p: "Interlayer_init_from_g_str ''0.76PVB'' = Inr interlayer"
    unfolding interlayer_def by code_simp
  from v p thickness_not_set_is_zero [of "''A''" "Some (PyInt 6)" "''0.76PVB''" interlayer exact_add]
  show ?thesis by blast
qed

text \<open>
  C9 as stated fails: a layer built with the default thickness is the layer built with
  thickness 0, and a negative thickness is accepted.
\<close>

theorem thickness_sentinel_not_distinct:
  "Interlayer_init ''PVB'' (Some THICKNESS_NOT_SET) = Interlayer_init ''PVB'' (Some (PyInt 0)) \<and>
   Interlayer_init ''PVB'' (Some (PyInt (- 1))) =
     Inr (Interlayer ''PVB'' (Some (PyInt (- 1))) (Some (PyInt (- 1))))"
  by (simp add: THICKNESS_NOT_SET_def Interlayer_init_def)

subsection \<open>Identifier wrapper\<close>

lemma hd_py_split_char: "hd (py_split [c] s) = takeWhile (\<lambda>x. x \<noteq> c) s"
  by (induction s) (simp_all add: py_split_char_Cons del: py_split.simps(2))

lemma py_find_index: "py_find c s = int k \<Longrightarrow> k = length (takeWhile (\<lambda>x. x \<noteq> c) s)"
  by (auto simp: py_find_def split: if_splits)

lemma slice_wrapper:
  assumes "startswith s c0" and "c0 \<noteq> c"
  shows "py_slice 1 (length (takeWhile (\<lambda>x. x \<noteq> c) s)) s = takeWhile (\<lambda>x. x \<noteq> c) (tl s)"
proof -
  from assms obtain t where s: "s = c0 # t" by (cases s) (auto simp: startswith_def)
  have "take (length (takeWhile (\<lambda>x. x \<noteq> c) s)) s = takeWhile (\<lambda>x. x \<noteq> c) s"
    by (induction s) auto
  then show ?thesis using assms(2) by (simp add: py_slice_def s)
qed

text \<open>
  C10. Let the string start with \<open>#\<close> and end with \<open>)\<close>, and let its first open
  bracket be the open bracket of the pair the scan closed last: these are the strings
  \<open>parse_igdbcode\<close> takes for a wrapper. The wrapper text is what stands between the
  \<open>#\<close> and the first open bracket. The code recorded is the wrapper text cut at its first
  \<open>x\<close>, so it holds no \<open>x\<close>; the flip flag tells whether the wrapper text ends with \<open>x\<close>.
\<close>

theorem parse_igdbcode_code_and_flip:
  assumes "startswith s IGDB_START" and "endswith s IGDB_CLOSE_BRACKET"
    and "fst (find_enclosed_brackets s) \<noteq> []"
    and "py_find IGDB_OPEN_BRACKET s = int (fst (last (fst (find_enclosed_brackets s))))"
    and "attrs_of self = Some a"
  shows "\<exists>self' a' core code.
           parse_igdbcode self s = Inr (self', core) \<and> attrs_of self' = Some a' \<and>
           igdbcode a' = Some code \<and>
           code = takeWhile (\<lambda>c. c \<noteq> IGDB_FLIP) (takeWhile (\<lambda>c. c \<noteq> IGDB_OPEN_BRACKET) (tl s)) \<and>
           IGDB_FLIP \<notin> set code \<and>
           igdbflip a' = endswith (takeWhile (\<lambda>c. c \<noteq> IGDB_OPEN_BRACKET) (tl s)) IGDB_FLIP"
proof -
  define prs where "prs = fst (find_enclosed_brackets s)"
  define k where "k = fst (last prs)"
  define w where "w = takeWhile (\<lambda>c. c \<noteq> IGDB_OPEN_BRACKET) (tl s)"
  from assms(3) have prs: "prs \<noteq> []" by (simp add: prs_def)
  from assms(4) have find: "py_find IGDB_OPEN_BRACKET s = int k" by (simp add: k_def prs_def)
  then have k: "k = length (takeWhile (\<lambda>x. x \<noteq> IGDB_OPEN_BRACKET) s)" by (rule py_find_index)
  have x: "py_slice 1 k s = w"
    unfolding k w_def using assms(1) by (rule slice_wrapper) simp
  have "parse_igdbcode self s =
      (if prs = [] then Inl IndexError
       else if py_find IGDB_OPEN_BRACKET s = int (fst (last prs)) then
             Inr (map_attrs (\<lambda>a. a\<lparr>igdbflip := endswith (py_slice 1 (fst (last prs)) s) IGDB_FLIP,
                     igdbcode := Some (hd (py_split [IGDB_FLIP] (py_slice 1 (fst (last prs)) s)))\<rparr>) self,
                  py_slice (fst (last prs) + 1) (snd (last prs)) s)
           else Inr (self, s))"
    using assms(1,2) unfolding parse_igdbcode_def prs_def [symmetric] Let_def
    by (cases prs) (simp_all del: py_split.simps last.simps)
  then have res: "parse_igdbcode self s =
      Inr (map_attrs (\<lambda>a. a\<lparr>igdbflip := endswith w IGDB_FLIP,
                              igdbcode := Some (takeWhile (\<lambda>c. c \<noteq> IGDB_FLIP) w)\<rparr>) self,
           py_slice (k + 1) (snd (last prs)) s)"
    unfolding k_def [symmetric] using prs find x
    by (simp add: hd_py_split_char del: py_split.simps)
  have no_flip: "IGDB_FLIP \<notin> set (takeWhile (\<lambda>c. c \<noteq> IGDB_FLIP) w)"
    by (auto dest: set_takeWhileD)
  from assms(5) have "attrs_of (map_attrs (\<lambda>a. a\<lparr>igdbflip := endswith w IGDB_FLIP,
                              igdbcode := Some (takeWhile (\<lambda>c. c \<noteq> IGDB_FLIP) w)\<rparr>) self)
     = Some (a\<lparr>igdbflip := endswith w IGDB_FLIP, igdbcode := Some (takeWhile (\<lambda>c. c \<noteq> IGDB_FLIP) w)\<rparr>)"
    by (cases self) auto
  with res no_flip show ?thesis unfolding w_def [symmetric] by simp
qed

theorem parse_igdbcode_code_and_flip_witness:
  "parse_igdbcode igu_outer ''#2x0x(6A)'' =
     Inr (MonoGlass ''A'' (Some (PyInt 6)) (Some (PyInt 6))
            (default_attrs\<lparr>igdbflip := True, igdbcode := Some ''2''\<rparr>), ''6A'')"
proof -
  have h: "startswith ''#2x0x(6A)'' IGDB_START" "endswith ''#2x0x(6A)'' IGDB_CLOSE_BRACKET"
    "fst (find_enclosed_brackets ''#2x0x(6A)'') \<noteq> []"
    "py_find IGDB_OPEN_BRACKET ''#2x0x(6A)'' = int (fst (last (fst (find_enclosed_brackets ''#2x0x(6A)''))))"
    "attrs_of igu_outer = Some default_attrs"
    by (simp_all add: startswith_def endswith_def find_enclosed_brackets_def py_find_def igu_outer_def)
  have e: "parse_igdbcode igu_outer ''#2x0x(6A)'' =
      Inr (map_attrs (\<lambda>a. a\<lparr>igdbflip := True, igdbcode := Some ''2''\<rparr>) igu_outer, ''6A'')"
    by (simp add: parse_igdbcode_def startswith_def endswith_def find_enclosed_brackets_def
        py_find_def py_slice_def Let_def)
  from parse_igdbcode_code_and_flip [OF h] e show ?thesis
    by (simp add: igu_outer_def)
qed

subsection \<open>Metadata tail\<close>



text \<open>
  C6 at the failing input. The docstring of \<open>parse_meta\<close> places the metadata at the
  end of the string, after the hyphen, and the specification looks the three markers up in
  that segment only. The code passes the whole string to \<open>find_number_after_marker\<close>.
  The pane with identifier code \<open>W5\<close> and height 3 renders as \<open>#W5(6A)-H3\<close>. The
  metadata segment \<open>H3\<close> holds no width, yet \<open>parse_meta\<close> sets the width to 5, read
  from the identifier code before the hyphen, and \<open>make_glass\<close> returns a pane of width 5
  for a pane that has no width.
\<close>

theorem parse_meta_reads_marker_in_core:
  "to_gstr True (MonoGlass ''A'' (Some (PyInt 6)) (Some (PyInt 6))
      (default_attrs\<lparr>a_height := Some (PyInt 3), igdbcode := Some ''W5''\<rparr>)) = ''#W5(6A)-H3'' \<and>
   metadata_segment ''#W5(6A)-H3'' = ''H3'' \<and>
   find_number_after_marker WIDTH ''H3'' True = Inr None \<and>
   find_number_after_marker WIDTH ''#W5(6A)-H3'' True = Inr (Some (PyInt 5)) \<and>
   parse_meta (MonoGlass ''MONO'' None None default_attrs) ''#W5(6A)-H3'' =
     Inr (MonoGlass ''MONO'' None None
            (default_attrs\<lparr>a_width := Some (PyInt 5), a_height := Some (PyInt 3)\<rparr>), ''#W5(6A)'') \<and>
   extract_metadata_spec (MonoGlass ''MONO'' None None default_attrs) ''#W5(6A)-H3'' =
     Inr (MonoGlass ''MONO'' None None (default_attrs\<lparr>a_height := Some (PyInt 3)\<rparr>), ''#W5(6A)'') \<and>
   make_glass ''#W5(6A)-H3'' =
     Inr (MonoGlass ''A'' (Some (PyInt 6)) (Some (PyInt 6))
            (default_attrs\<lparr>a_width := Some (PyInt 5), a_height := Some (PyInt 3),
               igdbcode := Some ''W5''\<rparr>))"
  unfolding default_attrs_def by code_simp

subsection \<open>Round trip\<close>

text \<open>
  The lemmas follow the parser: numbers and their rendering, the token of a leaf, the
  metadata tail, the bracket scan and the identifier wrapper, split and join, and then the
  three classes from the pane up to the insulated unit.
\<close>

subsubsection \<open>Numbers and their rendering\<close>





































subsubsection \<open>The token of a leaf layer\<close>











subsubsection \<open>Reading the metadata tail back\<close>

lemma meta_ok_truthy: "meta_ok v \<Longrightarrow> truthy_num v = (v \<noteq> None)"
  by (cases v) (auto simp: meta_ok_def)































subsubsection \<open>Brackets and the identifier wrapper\<close>






















subsubsection \<open>Split and join\<close>









subsubsection \<open>Rendered layers\<close>


















subsubsection \<open>The first two steps of a parse\<close>








lemma map_attrs_fresh: "attrs_of self = Some a0 \<Longrightarrow> layers self = [] \<Longrightarrow>
    attrs_of (map_attrs f self) = Some (f a0) \<and> layers (map_attrs f self) = []"
  by (cases self) simp_all


subsubsection \<open>Separator layers and panes\<close>










subsubsection \<open>Laminated buildups\<close>














subsubsection \<open>Insulated units and the theorem\<close>



















end
